theory Spec2Isabelle
  imports Complex_Main "HOL-Library.Sublist"
begin

section \<open>Python strings\<close>

text \<open>
  A Python \<open>str\<close> is a sequence of Unicode code points.  The program's literals are mostly
  Hangul, so a string is modelled as the list of its code points (written in hexadecimal);
  ASCII literals are converted from HOL strings by \<open>ascii\<close>.
\<close>

type_synonym codepoint = nat
type_synonym ustr = "codepoint list"

definition ascii :: "string \<Rightarrow> ustr" where
  "ascii s = map of_char s"

text \<open>
  \<open>str.strip()\<close> and \<open>str.split()\<close> without arguments work on the code points for which
  \<open>str.isspace()\<close> holds: U+0009..U+000D, U+001C..U+0020, U+0085, U+00A0, U+1680,
  U+2000..U+200A, U+2028, U+2029, U+202F, U+205F and U+3000.
\<close>

definition isspace :: "codepoint \<Rightarrow> bool" where
  "isspace c =
     ((0x09 \<le> c \<and> c \<le> 0x0D) \<or> (0x1C \<le> c \<and> c \<le> 0x20) \<or> c = 0x85 \<or> c = 0xA0 \<or>
      c = 0x1680 \<or> (0x2000 \<le> c \<and> c \<le> 0x200A) \<or> c = 0x2028 \<or> c = 0x2029 \<or>
      c = 0x202F \<or> c = 0x205F \<or> c = 0x3000)"

definition str_lstrip :: "ustr \<Rightarrow> ustr" where
  "str_lstrip s = dropWhile isspace s"

definition str_rstrip :: "ustr \<Rightarrow> ustr" where
  "str_rstrip s = rev (dropWhile isspace (rev s))"

definition str_strip :: "ustr \<Rightarrow> ustr" where
  "str_strip s = str_rstrip (str_lstrip s)"

text \<open>
  \<open>s.split()\<close>: the maximal runs of non-whitespace code points, in order.  The first
  argument of \<open>split_aux\<close> is the token read so far.
\<close>

fun split_aux :: "ustr \<Rightarrow> ustr \<Rightarrow> ustr list" where
  "split_aux cur [] = (if cur = [] then [] else [cur])"
| "split_aux cur (c # cs) =
     (if isspace c then (if cur = [] then split_aux [] cs else cur # split_aux [] cs)
      else split_aux (cur @ [c]) cs)"

definition str_split :: "ustr \<Rightarrow> ustr list" where
  "str_split s = split_aux [] s"

section \<open>Exceptions\<close>

text \<open>
  \<open>io_error\<close> lists what a write or flush on the log's text file can raise: an
  \<open>OSError\<close> of the operating system, the \<open>ValueError\<close> of a closed file, and the
  \<open>UnicodeEncodeError\<close> of the UTF-8 encoder.  All of them derive from \<open>Exception\<close>.
\<close>

datatype io_error = OSError | ValueError | UnicodeEncodeError

datatype exn = ApiError | IndexError | RuntimeError | IOError io_error

text \<open>
  An operation on a state either returns with the new state or raises; a raise keeps the
  state as it was mutated up to that point.
\<close>

datatype 's outcome = Returns 's | Raises exn 's

fun final_state :: "'s outcome \<Rightarrow> 's" where
  "final_state (Returns s) = s"
| "final_state (Raises e s) = s"

text \<open>\<open>xs[0]\<close>: the first element, \<open>IndexError\<close> on the empty list.\<close>

definition first_item :: "'a list \<Rightarrow> exn + 'a" where
  "first_item xs = (case xs of [] \<Rightarrow> Inl IndexError | x # _ \<Rightarrow> Inr x)"

section \<open>The mirror transform (\<open>mirror_hierarchy\<close>, \<open>mirror_response\<close>)\<close>

text \<open>
  A dict literal is an association list in the order written; \<open>d.get(k, default)\<close> is
  \<open>dict_get\<close>.  No key is repeated in the program's literals.
\<close>

definition dict_get :: "('k \<times> 'v) list \<Rightarrow> 'k \<Rightarrow> 'v \<Rightarrow> 'v" where
  "dict_get d k dflt = (case map_of d k of None \<Rightarrow> dflt | Some v \<Rightarrow> v)"

text \<open>The inner key (U+ACB0 U+B860, "conclusion") of every node of the table.\<close>

definition conclusion_key :: ustr where
  "conclusion_key = [0xACB0, 0xB860]"

text \<open>The literal U+D63C U+C7A3 U+B9D0 ("soliloquy"): a key of the table, and the subject
  of the soliloquy path.\<close>

definition soliloquy_subject :: ustr where
  "soliloquy_subject = [0xD63C, 0xC7A3, 0xB9D0]"

text \<open>The table of lines 112 to 118: water, fire, wind, earth, soliloquy.\<close>

definition mirror_hierarchy :: "(ustr \<times> (ustr \<times> ustr) list) list" where
  "mirror_hierarchy =
     [([0xBB3C],
         [(conclusion_key, [0xD3C9, 0xD654, 0xC640, 0x20, 0xC0DD, 0xBA85, 0xC758, 0x20, 0xBB38])]),
      ([0xBD88],
         [(conclusion_key,
           [0xBE5B, 0xACFC, 0x20, 0xD3C9, 0xD654, 0xC758, 0x20, 0xC548, 0xB0B4, 0xC790])]),
      ([0xBC14, 0xB78C],
         [(conclusion_key,
           [0xC790, 0xC720, 0xC640, 0x20, 0xD750, 0xB984, 0xC758, 0x20, 0xC228, 0xACB0])]),
      ([0xD759],
         [(conclusion_key,
           [0xD488, 0xC74C, 0xACFC, 0x20, 0xBFCC, 0xB9AC, 0xC758, 0x20, 0xC548, 0xC2DD])]),
      (soliloquy_subject,
         [(conclusion_key,
           [0xB0B4, 0xBA74, 0xC744, 0x20, 0xBE44, 0xCD94, 0xB294, 0x20, 0xAC70, 0xC6B8, 0x20,
            0xAC19, 0xC740, 0x20, 0xC18D, 0xC0AD, 0xC784])])]"

text \<open>
  The constant pieces of the two f-strings of \<open>mirror_response\<close>.  Line 123 is
  \<open>fallback_open @ subject @ fallback_close @ original\<close>; lines 125 to 128 are
  \<open>title_open @ subject @ title_close\<close>, then \<open>original_label @ original.strip() @ newline\<close>,
  then \<open>contrast_label @ subject @ contrast_tail\<close>, then \<open>synthesis_label @ conclusion\<close>.
\<close>

definition newline :: ustr where
  "newline = [0x0A]"

definition fallback_open :: ustr where
  "fallback_open = [0xAC70, 0xC6B8, 0xC0C1, 0x3A, 0x20, 0x28, 0xC8FC, 0xC81C, 0x20, 0x27]"

definition fallback_close :: ustr where
  "fallback_close = [0x27, 0x20, 0xC815, 0xC758, 0x20, 0xC5C6, 0xC74C, 0x29, 0x0A, 0x0A]"

definition title_open :: ustr where
  "title_open = [0xAC70, 0xC6B8, 0xC0C1, 0x20, 0x28]"

definition title_close :: ustr where
  "title_close = [0x29, 0x3A, 0x0A]"

definition original_label :: ustr where
  "original_label = [0x2D, 0x20, 0xC6D0, 0xBB38, 0x3A, 0x20]"

definition contrast_label :: ustr where
  "contrast_label = [0x2D, 0x20, 0xB300, 0xC870, 0x3A, 0x20]"

definition contrast_tail :: ustr where
  "contrast_tail =
     [0xC740, 0x2F, 0xB294, 0x20, 0xC2A4, 0xC2A4, 0xB85C, 0x20, 0xC8FC, 0xC7A5, 0xD558, 0xC9C0,
      0x20, 0xC54A, 0xC9C0, 0xB9CC, 0x20, 0xBAA8, 0xB4E0, 0x20, 0xAC83, 0xC744, 0x20, 0xB2F4,
      0xC544, 0xB0B8, 0xB2E4, 0x2E, 0x0A]"

definition synthesis_label :: ustr where
  "synthesis_label = [0x2D, 0x20, 0xC885, 0xD569, 0x3A, 0x20]"

text \<open>The contrastive sentence of line 127 with the subject substituted.\<close>

definition contrast_sentence :: "ustr \<Rightarrow> ustr" where
  "contrast_sentence subject = contrast_label @ subject @ contrast_tail"

text \<open>The fallback form of line 123.\<close>

definition fallback_form :: "ustr \<Rightarrow> ustr \<Rightarrow> ustr" where
  "fallback_form subject original = fallback_open @ subject @ fallback_close @ original"

definition mirror_response :: "ustr \<Rightarrow> ustr \<Rightarrow> ustr" where
  "mirror_response subject original =
     (let node = dict_get mirror_hierarchy subject [] in
      if node = [] then fallback_form subject original
      else title_open @ subject @ title_close @
           original_label @ str_strip original @ newline @
           contrast_sentence subject @
           synthesis_label @ dict_get node conclusion_key [])"

section \<open>The generation request (\<open>ask_gemini\<close>)\<close>

text \<open>
  The five sidebar options of lines 94 to 98.  The two \<open>number_input\<close> widgets have integer
  bounds and return integers; the three sliders return floats, which are only stored and
  passed on, never computed with, so a real number stands for each.
\<close>

record options =
  max_tokens :: int
  temperature :: real
  top_k :: int
  top_p :: real
  repeat_penalty :: real

datatype pyval = PyInt int | PyFloat real

text \<open>
  The keyword arguments given to \<open>GenerationConfig\<close> (lines 139 to 141), by name, and the
  request handed to \<open>generate_content\<close>: the model's name, the prompt, the configuration.
\<close>

type_synonym generation_config = "(string \<times> pyval) list"

record request =
  model_name :: string
  contents :: ustr
  config :: generation_config

definition MODEL_NAME :: string where
  "MODEL_NAME = ''models/gemini-2.5-pro''"

definition build_config :: "options \<Rightarrow> generation_config" where
  "build_config opts =
     [(''max_output_tokens'', PyInt (max_tokens opts)),
      (''temperature'', PyFloat (temperature opts)),
      (''top_p'', PyFloat (top_p opts))]"

definition build_request :: "options \<Rightarrow> ustr \<Rightarrow> request" where
  "build_request opts user_input =
     \<lparr>model_name = MODEL_NAME, contents = user_input, config = build_config opts\<rparr>"

text \<open>
  The hosted service is outside the program: it answers a request with a text, or the call
  (or reading \<open>response.text\<close>) raises, which the specification names \<open>ApiError\<close>.
\<close>

datatype api_response = ApiText ustr | ApiFailure

type_synonym provider = "request \<Rightarrow> api_response"

definition ask_gemini :: "options \<Rightarrow> provider \<Rightarrow> ustr \<Rightarrow> exn + ustr" where
  "ask_gemini opts service user_input =
     (case service (build_request opts user_input) of
        ApiFailure \<Rightarrow> Inl ApiError
      | ApiText text \<Rightarrow> Inr (str_strip text))"

section \<open>The speaker (\<open>Speaker\<close>)\<close>

text \<open>
  \<open>Speaker.__init__\<close> (lines 37 to 45): any exception of \<open>pyttsx3.init\<close>, of reading the
  rate or of setting it leaves \<open>ok = False\<close> and no engine.  The rate itself plays no part
  in \<open>speak\<close> and is left out.
\<close>

datatype engine = Engine

datatype engine_init = InitRaises | GetRateRaises | SetRateRaises | EngineReady

record speaker =
  engine :: "engine option"
  ok :: bool

fun Speaker_init :: "engine_init \<Rightarrow> speaker" where
  "Speaker_init EngineReady = \<lparr>engine = Some Engine, ok = True\<rparr>"
| "Speaker_init _ = \<lparr>engine = None, ok = False\<rparr>"

section \<open>The session\<close>

text \<open>
  The log's text file: what has reached the file, and what \<open>write\<close> has accepted but
  \<open>flush\<close> has not yet pushed out.  A write or flush either succeeds or raises an
  \<open>io_error\<close>; a failed operation leaves the file object as it was.
\<close>

record logfile =
  on_disk :: ustr
  pending :: ustr

datatype io_result = Succeeds | Fails io_error

definition file_write :: "io_result \<Rightarrow> ustr \<Rightarrow> logfile \<Rightarrow> logfile outcome" where
  "file_write r text f =
     (case r of
        Fails e \<Rightarrow> Raises (IOError e) f
      | Succeeds \<Rightarrow> Returns (f\<lparr>pending := pending f @ text\<rparr>))"

definition file_flush :: "io_result \<Rightarrow> logfile \<Rightarrow> logfile outcome" where
  "file_flush r f =
     (case r of
        Fails e \<Rightarrow> Raises (IOError e) f
      | Succeeds \<Rightarrow> Returns \<lparr>on_disk = on_disk f @ pending f, pending = []\<rparr>)"

text \<open>
  What lies outside the program during one section of the script: the generation service,
  the outcome of the log's write and of its flush, and whether a new thread can be started.
\<close>

record env =
  service :: provider
  on_write :: io_result
  on_flush :: io_result
  thread_starts :: bool

text \<open>
  The state of the program: the three entries of \<open>st.session_state\<close>, which outlive a run
  of the script, the global \<open>speaker\<close>, which every run builds anew (line 54), and the
  texts whose playback thread has been started.  A message is the pair of its role and its
  text, as in the source.
\<close>

record app_state =
  messages :: "(string \<times> ustr) list"
  monologue_running :: bool
  logger :: logfile
  the_speaker :: speaker
  playbacks :: "ustr list"

text \<open>
  The first run of a session (lines 54, 66 to 68, 83 to 87): the file is opened for
  appending, so it may already hold \<open>prior\<close>.
\<close>

definition initial_state :: "engine_init \<Rightarrow> ustr \<Rightarrow> app_state" where
  "initial_state init prior =
     \<lparr>messages = [], monologue_running = False,
      logger = \<lparr>on_disk = prior, pending = []\<rparr>,
      the_speaker = Speaker_init init, playbacks = []\<rparr>"

text \<open>
  \<open>Speaker.speak\<close> (lines 47 to 52): \<open>self.ok and text.strip()\<close> is true when \<open>ok\<close> holds and
  the stripped text is not empty; then a thread is started that says the text.
\<close>

definition speak :: "bool \<Rightarrow> ustr \<Rightarrow> app_state \<Rightarrow> app_state outcome" where
  "speak can_start text st =
     (if ok (the_speaker st) \<and> str_strip text \<noteq> [] then
        (if can_start then Returns (st\<lparr>playbacks := playbacks st @ [text]\<rparr>)
         else Raises RuntimeError st)
      else Returns st)"

text \<open>
  \<open>write_log\<close> (lines 70 to 75): write the text and a newline, flush; \<open>except Exception: pass\<close>
  ends the attempt at the first operation that raises.
\<close>

definition write_log :: "env \<Rightarrow> ustr \<Rightarrow> app_state \<Rightarrow> app_state outcome" where
  "write_log ev text st =
     (case file_write (on_write ev) (text @ newline) (logger st) of
        Raises e f \<Rightarrow> Returns (st\<lparr>logger := f\<rparr>)
      | Returns f1 \<Rightarrow>
          (case file_flush (on_flush ev) f1 of
             Raises e f \<Rightarrow> Returns (st\<lparr>logger := f\<rparr>)
           | Returns f2 \<Rightarrow> Returns (st\<lparr>logger := f2\<rparr>)))"

text \<open>The two sidebar buttons (lines 104 to 107); each is true in the run its click caused.\<close>

definition buttons :: "bool \<Rightarrow> bool \<Rightarrow> app_state \<Rightarrow> app_state" where
  "buttons start_clicked stop_clicked st =
     (let st1 = (if start_clicked then st\<lparr>monologue_running := True\<rparr> else st)
      in if stop_clicked then st1\<lparr>monologue_running := False\<rparr> else st1)"

datatype button = Start | Stop

fun press :: "button \<Rightarrow> app_state \<Rightarrow> app_state" where
  "press Start st = buttons True False st"
| "press Stop st = buttons False True st"

definition presses :: "button list \<Rightarrow> app_state \<Rightarrow> app_state" where
  "presses bs st = foldl (\<lambda>s b. press b s) st bs"

text \<open>The widgets read in one run of the script.\<close>

record ui =
  opts :: options
  tts_enabled :: bool
  mirror_mode :: bool
  user_input :: ustr

text \<open>The subject of a user's text (line 155).\<close>

definition extract_subject :: "ustr \<Rightarrow> exn + ustr" where
  "extract_subject text = first_item (str_split (str_strip text))"

text \<open>The record logged for a user's turn (line 160) and for a soliloquy (line 177).\<close>

definition user_record :: "ustr \<Rightarrow> ustr \<Rightarrow> ustr" where
  "user_record text answer =
     ascii ''USER: '' @ text @ newline @ ascii ''ASSISTANT: '' @ answer"

definition mono_record :: "ustr \<Rightarrow> ustr" where
  "mono_record answer = ascii ''ASSISTANT(MONO): '' @ answer"

text \<open>
  Lines 158 to 163 and 176 to 180: append the messages, log the record, speak if enabled.
\<close>

definition log_and_speak :: "ui \<Rightarrow> env \<Rightarrow> ustr \<Rightarrow> ustr \<Rightarrow> app_state \<Rightarrow> app_state outcome" where
  "log_and_speak u ev rec answer st =
     (case write_log ev rec st of
        Raises e st' \<Rightarrow> Raises e st'
      | Returns st' \<Rightarrow>
          if tts_enabled u then speak (thread_starts ev) answer st' else Returns st')"

text \<open>The user's input (lines 152 to 163); \<open>if user_input\<close> holds for a non-empty string.\<close>

definition user_section :: "ui \<Rightarrow> env \<Rightarrow> app_state \<Rightarrow> app_state outcome" where
  "user_section u ev st =
     (if user_input u = [] then Returns st
      else
        case ask_gemini (opts u) (service ev) (user_input u) of
          Inl e \<Rightarrow> Raises e st
        | Inr answer \<Rightarrow>
            (case (if mirror_mode u then
                     (case extract_subject (user_input u) of
                        Inl e \<Rightarrow> Inl e
                      | Inr subject \<Rightarrow> Inr (mirror_response subject answer))
                   else Inr answer) of
               Inl e \<Rightarrow> Raises e st
             | Inr answer' \<Rightarrow>
                 let st1 = st\<lparr>messages := messages st @ [(''user'', user_input u)]\<rparr>;
                     st2 = st1\<lparr>messages := messages st1 @ [(''assistant'', answer')]\<rparr>
                 in log_and_speak u ev (user_record (user_input u) answer') answer' st2))"

text \<open>The prompt of line 171.\<close>

definition soliloquy_prompt :: ustr where
  "soliloquy_prompt =
     [0xC740, 0xC740, 0xD558, 0xACE0, 0x20, 0xC870, 0xC6A9, 0xD55C, 0x20, 0xD63C, 0xC7A3,
      0xB9D0, 0xC744, 0x20, 0xD55C, 0xAD6D, 0xC5B4, 0xB85C, 0x20, 0x31, 0x7E, 0x33, 0xBB38,
      0xC7A5, 0x20, 0xD574, 0xC918, 0x2E, 0x20, 0x27, 0xC608, 0xC218, 0xB2D8, 0xC758, 0x20,
      0xD3C9, 0xD654, 0xC640, 0x20, 0xC591, 0xC758, 0x20, 0xBB38, 0x27, 0x20, 0xC0C1, 0xC9D5,
      0xC744, 0x20, 0xAC00, 0xBCCD, 0xAC8C, 0x20, 0xB2F4, 0xC544, 0x2E]"

text \<open>The soliloquy mode (lines 168 to 180); the two-second sleep is not modelled.\<close>

definition soliloquy_section :: "ui \<Rightarrow> env \<Rightarrow> app_state \<Rightarrow> app_state outcome" where
  "soliloquy_section u ev st =
     (if \<not> monologue_running st then Returns st
      else
        case ask_gemini (opts u) (service ev) soliloquy_prompt of
          Inl e \<Rightarrow> Raises e st
        | Inr answer \<Rightarrow>
            let answer' = (if mirror_mode u then mirror_response soliloquy_subject answer
                           else answer);
                st1 = st\<lparr>messages := messages st @ [(''assistant'', answer')]\<rparr>
            in log_and_speak u ev (mono_record answer') answer' st1)"

text \<open>
  One run of the script: the speaker is built (line 54), then the buttons, the user's
  input, the soliloquy.  An exception ends the run where it is raised.
\<close>

definition script_run ::
    "engine_init \<Rightarrow> bool \<Rightarrow> bool \<Rightarrow> ui \<Rightarrow> env \<Rightarrow> env \<Rightarrow> app_state \<Rightarrow> app_state outcome" where
  "script_run init start_clicked stop_clicked u ev1 ev2 st =
     (let st0 = st\<lparr>the_speaker := Speaker_init init\<rparr>
      in case user_section u ev1 (buttons start_clicked stop_clicked st0) of
           Raises e st' \<Rightarrow> Raises e st'
         | Returns st' \<Rightarrow> soliloquy_section u ev2 st')"

section \<open>Inputs of the examples\<close>

text \<open>
  The texts of the specification's scenarios: the key U+BB3C ("water") and its conclusion,
  the user's text that starts with it, and the model's answers.
\<close>

definition ex_water :: ustr where
  "ex_water = [0xBB3C]"

definition ex_water_conclusion :: ustr where
  "ex_water_conclusion = [0xD3C9, 0xD654, 0xC640, 0x20, 0xC0DD, 0xBA85, 0xC758, 0x20, 0xBB38]"

definition ex_user_text :: ustr where
  "ex_user_text = [0xBB3C, 0x20, 0xC774, 0xC57C, 0xAE30, 0xD574, 0xC918]"

definition ex_calm :: ustr where
  "ex_calm = [0xACE0, 0xC694, 0xD568]"

definition ex_whisper :: ustr where
  "ex_whisper = [0xD3C9, 0xD654, 0xC758, 0x20, 0xC18D, 0xC0AD, 0xC784]"

definition ex_options :: options where
  "ex_options =
     \<lparr>max_tokens = 5012, temperature = 9 / 10, top_k = 40, top_p = 9 / 10,
      repeat_penalty = 105 / 100\<rparr>"

definition ex_state :: app_state where
  "ex_state = initial_state EngineReady []"

definition ex_ui :: "bool \<Rightarrow> ustr \<Rightarrow> ui" where
  "ex_ui mirror text =
     \<lparr>opts = ex_options, tts_enabled = False, mirror_mode = mirror, user_input = text\<rparr>"

definition ex_env :: "api_response \<Rightarrow> io_result \<Rightarrow> env" where
  "ex_env response w =
     \<lparr>service = (\<lambda>_. response), on_write = w, on_flush = Succeeds, thread_starts = True\<rparr>"

section \<open>Stripping and splitting\<close>

lemma rstrip_prefix: "prefix (str_rstrip s) s"
proof -
  have "rev s = takeWhile isspace (rev s) @ dropWhile isspace (rev s)" by simp
  then have "s = rev (dropWhile isspace (rev s)) @ rev (takeWhile isspace (rev s))"
    by (metis rev_append rev_rev_ident)
  then show ?thesis unfolding str_rstrip_def by (metis prefixI)
qed

lemma rstrip_idem: "str_rstrip (str_rstrip s) = str_rstrip s"
  by (simp add: str_rstrip_def)

lemma lstrip_head: "str_lstrip s \<noteq> [] \<Longrightarrow> \<not> isspace (hd (str_lstrip s))"
  unfolding str_lstrip_def by (rule hd_dropWhile)

lemma lstrip_fixed: "s = [] \<or> \<not> isspace (hd s) \<Longrightarrow> str_lstrip s = s"
  unfolding str_lstrip_def by (cases s) auto

lemma strip_head: "str_strip s \<noteq> [] \<Longrightarrow> \<not> isspace (hd (str_strip s))"
proof -
  assume ne: "str_strip s \<noteq> []"
  have p: "prefix (str_strip s) (str_lstrip s)"
    unfolding str_strip_def by (rule rstrip_prefix)
  with ne have "str_lstrip s \<noteq> []" by auto
  moreover from p ne have "hd (str_strip s) = hd (str_lstrip s)"
    by (metis hd_append2 prefixE)
  ultimately show ?thesis using lstrip_head by simp
qed

lemma str_strip_idem: "str_strip (str_strip s) = str_strip s"
proof -
  have "str_lstrip (str_strip s) = str_strip s"
    using strip_head lstrip_fixed by blast
  then have "str_strip (str_strip s) = str_rstrip (str_strip s)"
    unfolding str_strip_def[of "str_strip s"] by simp
  also have "\<dots> = str_strip s"
    unfolding str_strip_def by (rule rstrip_idem)
  finally show ?thesis .
qed

lemma split_aux_nonempty: "cur \<noteq> [] \<Longrightarrow> split_aux cur s \<noteq> []"
  by (induction s arbitrary: cur) auto

lemma extract_subject_blank: "str_strip text = [] \<Longrightarrow> extract_subject text = Inl IndexError"
  by (simp add: extract_subject_def str_split_def first_item_def)

lemma extract_subject_nonblank:
  assumes "str_strip text \<noteq> []"
  shows "\<exists>subject. extract_subject text = Inr subject"
proof -
  from assms obtain c cs where s: "str_strip text = c # cs" by (cases "str_strip text") auto
  with strip_head[OF assms] have "\<not> isspace c" by simp
  then have "split_aux [] (c # cs) = split_aux [c] cs" by simp
  moreover have "split_aux [c] cs \<noteq> []" by (rule split_aux_nonempty) simp
  ultimately show ?thesis
    by (cases "split_aux [c] cs") (auto simp: extract_subject_def str_split_def first_item_def s)
qed

section \<open>Properties of the mirror transform\<close>

lemma mirror_hierarchy_node:
  assumes "map_of mirror_hierarchy subject = Some node"
  shows "node \<noteq> [] \<and> dict_get mirror_hierarchy subject [] = node"
  using assms by (auto simp: mirror_hierarchy_def dict_get_def split: if_splits)

lemma sublist_middle: "sublist xs (ps @ xs @ ss)"
  by (rule sublist_appendI)

text \<open>
  Claim C1, as amended.  For every subject that is a key of \<open>mirror_hierarchy\<close> (with node
  \<open>node\<close>, whose conclusion is \<open>concl\<close>) and every original text, \<open>mirror_response\<close> returns
  the four-line string of lines 125 to 128, which contains the original text with its
  leading and trailing whitespace removed, the contrastive sentence with the subject
  substituted, and the conclusion of the table.  The result is this closed expression in
  the subject and the original alone, so two calls with the same inputs return equal
  strings.
\<close>

theorem mirror_response_found:
  assumes "map_of mirror_hierarchy subject = Some node"
    and "map_of node conclusion_key = Some concl"
  shows "mirror_response subject original =
           title_open @ subject @ title_close @
           original_label @ str_strip original @ newline @
           contrast_sentence subject @ synthesis_label @ concl
         \<and> sublist (str_strip original) (mirror_response subject original)
         \<and> sublist (contrast_sentence subject) (mirror_response subject original)
         \<and> sublist concl (mirror_response subject original)"
proof -
  from assms(1) have node: "node \<noteq> []" "dict_get mirror_hierarchy subject [] = node"
    using mirror_hierarchy_node by blast+
  from assms(2) have concl: "dict_get node conclusion_key [] = concl"
    by (simp add: dict_get_def)
  let ?r = "mirror_response subject original"
  have eq: "?r = title_open @ subject @ title_close @
           original_label @ str_strip original @ newline @
           contrast_sentence subject @ synthesis_label @ concl"
    using node concl by (simp add: mirror_response_def)
  have s1: "sublist (str_strip original) ?r"
  proof -
    have "?r = (title_open @ subject @ title_close @ original_label) @ str_strip original @
                 (newline @ contrast_sentence subject @ synthesis_label @ concl)"
      by (simp add: eq)
    then show ?thesis by (metis sublist_middle)
  qed
  have s2: "sublist (contrast_sentence subject) ?r"
  proof -
    have "?r = (title_open @ subject @ title_close @ original_label @ str_strip original @
                  newline) @ contrast_sentence subject @ (synthesis_label @ concl)"
      by (simp add: eq)
    then show ?thesis by (metis sublist_middle)
  qed
  have s3: "sublist concl ?r"
  proof -
    have "?r = (title_open @ subject @ title_close @ original_label @ str_strip original @
                  newline @ contrast_sentence subject @ synthesis_label) @ concl @ []"
      by (simp add: eq)
    then show ?thesis by (metis sublist_middle)
  qed
  from eq s1 s2 s3 show ?thesis by blast
qed

section \<open>Evaluation of the literals\<close>

lemmas piece_defs = fallback_open_def fallback_close_def title_open_def title_close_def
  original_label_def contrast_label_def contrast_tail_def synthesis_label_def newline_def
  contrast_sentence_def fallback_form_def conclusion_key_def soliloquy_subject_def

lemmas strip_defs = str_strip_def str_lstrip_def str_rstrip_def isspace_def

lemmas example_defs = ex_water_def ex_water_conclusion_def ex_user_text_def ex_calm_def
  ex_whisper_def

section \<open>The mirror transform on concrete inputs\<close>

text \<open>
  The theorem of claim C1 at the key "water" and an answer with a leading blank and a
  trailing newline: both hypotheses hold, and the stripped answer, the contrastive sentence
  and the conclusion are in the result.
\<close>

theorem mirror_response_found_witness:
  "map_of mirror_hierarchy ex_water = Some [(conclusion_key, ex_water_conclusion)]
   \<and> map_of [(conclusion_key, ex_water_conclusion)] conclusion_key = Some ex_water_conclusion
   \<and> str_strip (0x20 # ex_calm @ [0x0A]) = ex_calm
   \<and> sublist (str_strip (0x20 # ex_calm @ [0x0A])) (mirror_response ex_water (0x20 # ex_calm @ [0x0A]))
   \<and> sublist (contrast_sentence ex_water) (mirror_response ex_water (0x20 # ex_calm @ [0x0A]))
   \<and> sublist ex_water_conclusion (mirror_response ex_water (0x20 # ex_calm @ [0x0A]))"
proof -
  have h1: "map_of mirror_hierarchy ex_water = Some [(conclusion_key, ex_water_conclusion)]"
    by (simp add: mirror_hierarchy_def example_defs)
  have h2: "map_of [(conclusion_key, ex_water_conclusion)] conclusion_key = Some ex_water_conclusion"
    by simp
  have s: "str_strip (0x20 # ex_calm @ [0x0A]) = ex_calm"
    by (simp add: strip_defs example_defs)
  from mirror_response_found [OF h1 h2, of "0x20 # ex_calm @ [0x0A]"] h1 h2 s
  show ?thesis by blast
qed

text \<open>
  Claim C1 as written asks for the literal original text in the result.  With the key
  "water" and the original \<open>x\<close> followed by a blank, the result does not contain the
  original: line 126 strips it first.
\<close>

theorem mirror_response_untrimmed_counterexample:
  "map_of mirror_hierarchy ex_water = Some [(conclusion_key, ex_water_conclusion)] \<and>
   \<not> sublist [0x78, 0x20] (mirror_response ex_water [0x78, 0x20])"
  by (simp add: mirror_response_def mirror_hierarchy_def dict_get_def piece_defs
      strip_defs example_defs sublist_Cons_right prefix_code)

section \<open>The fallback of the mirror transform\<close>

text \<open>
  Claim C2.  For every subject that is not a key of \<open>mirror_hierarchy\<close> and every original
  text, \<open>mirror_response\<close> returns the fallback form of line 123: it contains the literal
  subject and ends with the original text, unmodified.  \<open>mirror_response\<close> has no raising
  branch (no step of lines 120 to 129 raises on strings), so it is a total function from
  two strings to a string.
\<close>

theorem mirror_response_absent:
  assumes "map_of mirror_hierarchy subject = None"
  shows "mirror_response subject original = fallback_open @ subject @ fallback_close @ original
         \<and> sublist subject (mirror_response subject original)
         \<and> suffix original (mirror_response subject original)"
proof -
  from assms have eq:
    "mirror_response subject original = fallback_open @ subject @ fallback_close @ original"
    by (simp add: mirror_response_def dict_get_def fallback_form_def)
  have "sublist subject (fallback_open @ subject @ fallback_close @ original)"
    by (rule sublist_appendI)
  moreover have "suffix original ((fallback_open @ subject @ fallback_close) @ original)"
    by (rule suffix_appendI) simp
  ultimately show ?thesis using eq by simp
qed

text \<open>The subject \<open>x\<close> is not a key; the original keeps its blanks.\<close>

theorem mirror_response_absent_witness:
  "map_of mirror_hierarchy [0x78] = None
   \<and> mirror_response [0x78] [0x20, 0x79, 0x20] =
       fallback_open @ [0x78] @ fallback_close @ [0x20, 0x79, 0x20]
   \<and> sublist [0x78] (mirror_response [0x78] [0x20, 0x79, 0x20])
   \<and> suffix [0x20, 0x79, 0x20] (mirror_response [0x78] [0x20, 0x79, 0x20])"
proof -
  have h: "map_of mirror_hierarchy [0x78] = None"
    by (simp add: mirror_hierarchy_def soliloquy_subject_def)
  from mirror_response_absent [OF h, of "[0x20, 0x79, 0x20]"] h show ?thesis
    by blast
qed

section \<open>The request of \<open>ask_gemini\<close>\<close>

text \<open>
  Claim C3.  For every options record, \<open>ask_gemini\<close> hands the service one request, whose
  configuration has exactly the fields \<open>max_output_tokens\<close>, \<open>temperature\<close> and \<open>top_p\<close>,
  equal to the option values; it has no field \<open>top_k\<close> and no field \<open>repetition_penalty\<close>, and
  the request is the same whatever the values of these two options are.
\<close>

theorem ask_gemini_request:
  "ask_gemini os svc prompt =
     (case svc \<lparr>model_name = MODEL_NAME, contents = prompt,
                    config = [(''max_output_tokens'', PyInt (max_tokens os)),
                              (''temperature'', PyFloat (temperature os)),
                              (''top_p'', PyFloat (top_p os))]\<rparr> of
        ApiFailure \<Rightarrow> Inl ApiError
      | ApiText text \<Rightarrow> Inr (str_strip text))
   \<and> map_of (config (build_request os prompt)) ''max_output_tokens'' = Some (PyInt (max_tokens os))
   \<and> map_of (config (build_request os prompt)) ''temperature'' = Some (PyFloat (temperature os))
   \<and> map_of (config (build_request os prompt)) ''top_p'' = Some (PyFloat (top_p os))
   \<and> map_of (config (build_request os prompt)) ''top_k'' = None
   \<and> map_of (config (build_request os prompt)) ''repetition_penalty'' = None
   \<and> build_request (os\<lparr>top_k := k, repeat_penalty := r\<rparr>) prompt = build_request os prompt"
  by (simp add: ask_gemini_def build_request_def build_config_def)

section \<open>Logging and the history\<close>

lemma write_log_returns:
  "\<exists>f. write_log ev text st = Returns (st\<lparr>logger := f\<rparr>)"
  by (cases "on_write ev"; cases "on_flush ev")
     (auto simp: write_log_def file_write_def file_flush_def intro: exI[of _ "logger st"])

lemma write_log_succeeds:
  assumes "on_write ev = Succeeds" and "on_flush ev = Succeeds"
  shows "write_log ev text st =
           Returns (st\<lparr>logger := \<lparr>on_disk = on_disk (logger st) @ pending (logger st) @ text @ newline,
                                   pending = []\<rparr>\<rparr>)"
  using assms by (simp add: write_log_def file_write_def file_flush_def)

lemma speak_keeps:
  "messages (final_state (speak c text st)) = messages st
   \<and> logger (final_state (speak c text st)) = logger st
   \<and> monologue_running (final_state (speak c text st)) = monologue_running st
   \<and> the_speaker (final_state (speak c text st)) = the_speaker st"
  by (simp add: speak_def)

lemma log_and_speak_messages:
  "messages (final_state (log_and_speak u ev r answer st)) = messages st"
proof -
  obtain f where "write_log ev r st = Returns (st\<lparr>logger := f\<rparr>)"
    using write_log_returns by blast
  then show ?thesis by (simp add: log_and_speak_def speak_keeps)
qed

lemma log_and_speak_logger:
  assumes "on_write ev = Succeeds" and "on_flush ev = Succeeds"
  shows "logger (final_state (log_and_speak u ev r answer st)) =
           \<lparr>on_disk = on_disk (logger st) @ pending (logger st) @ r @ newline, pending = []\<rparr>"
  by (simp add: log_and_speak_def write_log_succeeds[OF assms] speak_keeps)


lemma user_section_messages:
  assumes "user_input u \<noteq> []"
    and "ask_gemini (opts u) (service ev) (user_input u) = Inr t"
    and "\<not> mirror_mode u \<or> extract_subject (user_input u) = Inr subject"
  shows "messages (final_state (user_section u ev st)) =
           messages st @ [(''user'', user_input u),
             (''assistant'', if mirror_mode u then mirror_response subject t else t)]"
  using assms by (auto simp: user_section_def log_and_speak_messages Let_def)

lemma soliloquy_section_messages:
  assumes "monologue_running st"
    and "ask_gemini (opts u) (service ev) soliloquy_prompt = Inr t"
  shows "messages (final_state (soliloquy_section u ev st)) =
           messages st @
           [(''assistant'', if mirror_mode u then mirror_response soliloquy_subject t else t)]"
  using assms by (simp add: soliloquy_section_def log_and_speak_messages Let_def)

section \<open>The scenarios' inputs evaluated\<close>

lemmas scenario_defs = ex_ui_def ex_env_def ex_state_def ex_options_def initial_state_def

lemma ask_gemini_ex:
  "ask_gemini os (service (ex_env (ApiText text) w)) prompt = Inr (str_strip text)"
  by (simp add: ask_gemini_def ex_env_def)

lemma strip_ex_calm: "str_strip ex_calm = ex_calm"
  by (simp add: strip_defs example_defs)

lemma strip_ex_whisper: "str_strip ex_whisper = ex_whisper"
  by (simp add: strip_defs example_defs)


section \<open>A failed write does not reach the caller\<close>

text \<open>
  Claim C4.  For every record text and every outcome of the write and of the flush
  (success, or any \<open>io_error\<close>), \<open>write_log\<close> returns, changing nothing but the logger.  The
  messages of an event are appended before \<open>write_log\<close> is called, so whatever the outcome
  of the write, a user's turn whose generation call returned (and whose subject, in mirror
  mode, was found) leaves the history extended by the user's and the assistant's message,
  and a soliloquy leaves it extended by the assistant's message.
\<close>

theorem write_log_never_raises:
  "(\<exists>f. write_log ev text st = Returns (st\<lparr>logger := f\<rparr>))
   \<and> (user_input u \<noteq> [] \<and> ask_gemini (opts u) (service ev) (user_input u) = Inr t
        \<and> (\<not> mirror_mode u \<or> extract_subject (user_input u) = Inr subject)
       \<longrightarrow> messages (final_state (user_section u ev st)) =
             messages st @ [(''user'', user_input u),
               (''assistant'', if mirror_mode u then mirror_response subject t else t)])
   \<and> (monologue_running st \<and> ask_gemini (opts u) (service ev) soliloquy_prompt = Inr t'
       \<longrightarrow> messages (final_state (soliloquy_section u ev st)) =
             messages st @
             [(''assistant'', if mirror_mode u then mirror_response soliloquy_subject t' else t')])"
  using write_log_returns user_section_messages soliloquy_section_messages by blast

text \<open>
  The write fails with \<open>OSError\<close>: \<open>write_log\<close> returns, and the user's turn and the
  soliloquy still extend the history.
\<close>

theorem write_log_never_raises_witness:
  "on_write (ex_env (ApiText ex_calm) (Fails OSError)) = Fails OSError
   \<and> (\<exists>f. write_log (ex_env (ApiText ex_calm) (Fails OSError)) (ascii ''USER: '') ex_state =
            Returns (ex_state\<lparr>logger := f\<rparr>))
   \<and> messages (final_state (user_section (ex_ui False ex_user_text)
         (ex_env (ApiText ex_calm) (Fails OSError)) ex_state)) =
       [(''user'', ex_user_text), (''assistant'', ex_calm)]
   \<and> messages (final_state (soliloquy_section (ex_ui False [])
         (ex_env (ApiText ex_whisper) (Fails OSError)) (press Start ex_state))) =
       [(''assistant'', ex_whisper)]"
proof -
  let ?ev = "ex_env (ApiText ex_calm) (Fails OSError)"
  let ?ev' = "ex_env (ApiText ex_whisper) (Fails OSError)"
  let ?u = "ex_ui False ex_user_text"
  let ?u' = "ex_ui False []"
  have w: "on_write ?ev = Fails OSError" by (simp add: ex_env_def)
  have h1: "user_input ?u \<noteq> []" by (simp add: ex_ui_def ex_user_text_def)
  have h2: "ask_gemini (opts ?u) (service ?ev) (user_input ?u) = Inr ex_calm"
    by (simp add: ask_gemini_ex strip_ex_calm)
  have h3: "\<not> mirror_mode ?u" by (simp add: ex_ui_def)
  have m0: "messages ex_state = []" by (simp add: scenario_defs)
  have k1: "monologue_running (press Start ex_state)" by (simp add: buttons_def)
  have k2: "ask_gemini (opts ?u') (service ?ev') soliloquy_prompt = Inr ex_whisper"
    by (simp add: ask_gemini_ex strip_ex_whisper)
  have k3: "\<not> mirror_mode ?u'" by (simp add: ex_ui_def)
  have m1: "messages (press Start ex_state) = []" by (simp add: buttons_def scenario_defs)
  from write_log_never_raises [of ?ev "ascii ''USER: ''" ex_state ?u ex_calm ex_water]
  have a: "\<exists>f. write_log ?ev (ascii ''USER: '') ex_state = Returns (ex_state\<lparr>logger := f\<rparr>)"
    and b: "messages (final_state (user_section ?u ?ev ex_state)) =
              [(''user'', ex_user_text), (''assistant'', ex_calm)]"
    using h1 h2 h3 m0 by (simp_all add: ex_ui_def)
  from write_log_never_raises [of ?ev' "[]" "press Start ex_state" ?u' _ _ ex_whisper]
  have c: "messages (final_state (soliloquy_section ?u' ?ev' (press Start ex_state))) =
              [(''assistant'', ex_whisper)]"
    using k1 k2 k3 m1 by simp
  from w a b c show ?thesis by blast
qed

section \<open>The subject of a blank input\<close>

text \<open>
  Claim C5 says that the user's section runs exactly for the inputs whose stripped form is
  not empty, so that the subject is always found.  Line 152 tests the input itself, not
  its stripped form: for an input of three blanks the section runs, the generation call is
  made, and in mirror mode line 155 raises \<open>IndexError\<close>, before anything is appended.
  (\<open>extract_subject_nonblank\<close> is the part of the claim that holds: the subject of an
  input whose stripped form is not empty is always found.)
\<close>

theorem blank_input_raises_IndexError:
  "user_input (ex_ui True [0x20, 0x20, 0x20]) \<noteq> []
   \<and> str_strip (user_input (ex_ui True [0x20, 0x20, 0x20])) = []
   \<and> user_section (ex_ui True [0x20, 0x20, 0x20]) (ex_env (ApiText ex_calm) Succeeds) ex_state =
       Raises IndexError ex_state"
  by (simp add: user_section_def ask_gemini_ex extract_subject_blank ex_ui_def strip_defs)

section \<open>A user's turn in mirror mode\<close>

text \<open>
  For a key of the table, stripping the original first makes no difference, since line 126
  strips it itself.
\<close>

lemma mirror_response_strip:
  assumes "map_of mirror_hierarchy subject = Some node"
  shows "mirror_response subject (str_strip text) = mirror_response subject text"
  using mirror_hierarchy_node[OF assms] by (simp add: mirror_response_def str_strip_idem)



section \<open>A soliloquy\<close>

lemma soliloquy_subject_key:
  "\<exists>node. map_of mirror_hierarchy soliloquy_subject = Some node"
  by (simp add: mirror_hierarchy_def soliloquy_subject_def)

text \<open>
  Claim C7, as amended.  In a cycle of the soliloquy mode where the model answers the text
  \<open>r\<close> (the write and the flush succeed, nothing is left unflushed from before): the
  history gains exactly one message, of the assistant, whose text is \<open>r\<close> with its leading
  and trailing whitespace removed when mirror mode is off and
  \<open>mirror_response soliloquy_subject r\<close> when it is on, and the log file gains the one record
  \<open>ASSISTANT(MONO): text\<close> and a newline.
\<close>

theorem soliloquy_section_cycle:
  assumes "monologue_running st"
    and "service ev (build_request (opts u) soliloquy_prompt) = ApiText r"
    and "on_write ev = Succeeds" and "on_flush ev = Succeeds"
    and "pending (logger st) = []"
  shows "messages (final_state (soliloquy_section u ev st)) =
           messages st @
           [(''assistant'',
             if mirror_mode u then mirror_response soliloquy_subject r else str_strip r)]
       \<and> on_disk (logger (final_state (soliloquy_section u ev st))) =
           on_disk (logger st) @ ascii ''ASSISTANT(MONO): '' @
           (if mirror_mode u then mirror_response soliloquy_subject r else str_strip r) @
           newline
       \<and> pending (logger (final_state (soliloquy_section u ev st))) = []"
proof -
  have ask: "ask_gemini (opts u) (service ev) soliloquy_prompt = Inr (str_strip r)"
    using assms(2) by (simp add: ask_gemini_def)
  obtain node where "map_of mirror_hierarchy soliloquy_subject = Some node"
    using soliloquy_subject_key by blast
  then have again:
    "mirror_response soliloquy_subject (str_strip r) = mirror_response soliloquy_subject r"
    by (rule mirror_response_strip)
  let ?a = "if mirror_mode u then mirror_response soliloquy_subject r else str_strip r"
  let ?st1 = "st\<lparr>messages := messages st @ [(''assistant'', ?a)]\<rparr>"
  have run: "soliloquy_section u ev st = log_and_speak u ev (mono_record ?a) ?a ?st1"
    using assms(1) ask again by (simp add: soliloquy_section_def Let_def)
  have msgs: "messages (final_state (soliloquy_section u ev st)) = messages ?st1"
    unfolding run by (rule log_and_speak_messages)
  have lg: "logger (final_state (soliloquy_section u ev st)) =
              \<lparr>on_disk = on_disk (logger ?st1) @ pending (logger ?st1) @
                 mono_record ?a @ newline, pending = []\<rparr>"
    unfolding run using assms(3,4) by (rule log_and_speak_logger)
  from msgs lg assms(5) show ?thesis by (simp add: mono_record_def)
qed

text \<open>
  The service answers "whisper of peace" between a blank and a newline: with mirror mode
  off the message and the record hold the stripped text, with mirror mode on the
  transform of the answer.
\<close>

theorem soliloquy_section_cycle_witness:
  "monologue_running (press Start ex_state)
   \<and> service (ex_env (ApiText (0x20 # ex_whisper @ [0x0A])) Succeeds)
        (build_request (opts (ex_ui False [])) soliloquy_prompt) =
       ApiText (0x20 # ex_whisper @ [0x0A])
   \<and> str_strip (0x20 # ex_whisper @ [0x0A]) = ex_whisper
   \<and> messages (final_state (soliloquy_section (ex_ui False [])
        (ex_env (ApiText (0x20 # ex_whisper @ [0x0A])) Succeeds) (press Start ex_state))) =
       [(''assistant'', ex_whisper)]
   \<and> on_disk (logger (final_state (soliloquy_section (ex_ui False [])
        (ex_env (ApiText (0x20 # ex_whisper @ [0x0A])) Succeeds) (press Start ex_state)))) =
       ascii ''ASSISTANT(MONO): '' @ ex_whisper @ newline
   \<and> messages (final_state (soliloquy_section (ex_ui True [])
        (ex_env (ApiText (0x20 # ex_whisper @ [0x0A])) Succeeds) (press Start ex_state))) =
       [(''assistant'', mirror_response soliloquy_subject (0x20 # ex_whisper @ [0x0A]))]
   \<and> on_disk (logger (final_state (soliloquy_section (ex_ui True [])
        (ex_env (ApiText (0x20 # ex_whisper @ [0x0A])) Succeeds) (press Start ex_state)))) =
       ascii ''ASSISTANT(MONO): '' @
       mirror_response soliloquy_subject (0x20 # ex_whisper @ [0x0A]) @ newline"
proof -
  let ?r = "0x20 # ex_whisper @ [0x0A]"
  let ?ev = "ex_env (ApiText ?r) Succeeds"
  let ?st = "press Start ex_state"
  have h1: "monologue_running ?st" by (simp add: buttons_def)
  have h2: "service ?ev (build_request (opts (ex_ui m [])) soliloquy_prompt) = ApiText ?r" for m
    by (simp add: ex_env_def)
  have h3: "on_write ?ev = Succeeds" and h4: "on_flush ?ev = Succeeds"
    by (simp_all add: ex_env_def)
  have h5: "pending (logger ?st) = []" by (simp add: buttons_def scenario_defs)
  have s: "str_strip ?r = ex_whisper" by (simp add: strip_defs ex_whisper_def)
  have m0: "messages ?st = []" and d0: "on_disk (logger ?st) = []"
    by (simp_all add: buttons_def scenario_defs)
  have off: "\<not> mirror_mode (ex_ui False [])" and on: "mirror_mode (ex_ui True [])"
    by (simp_all add: ex_ui_def)
  from soliloquy_section_cycle [OF h1 h2 h3 h4 h5, of False]
       soliloquy_section_cycle [OF h1 h2 h3 h4 h5, of True] h1 h2 [of False] s
  show ?thesis by (simp add: m0 d0 off on del: press.simps)
qed

text \<open>
  Claim C7 as written says that with mirror mode off the message's text is the text the
  model returned.  When the service answers a blank, \<open>x\<close> and a newline, the message holds
  \<open>x\<close> alone: line 145 strips the answer.
\<close>

theorem soliloquy_unstripped_counterexample:
  "monologue_running (press Start ex_state)
   \<and> \<not> mirror_mode (ex_ui False [])
   \<and> service (ex_env (ApiText [0x20, 0x78, 0x0A]) Succeeds)
        (build_request (opts (ex_ui False [])) soliloquy_prompt) = ApiText [0x20, 0x78, 0x0A]
   \<and> messages (final_state (soliloquy_section (ex_ui False [])
        (ex_env (ApiText [0x20, 0x78, 0x0A]) Succeeds) (press Start ex_state))) =
       messages (press Start ex_state) @ [(''assistant'', [0x78])]
   \<and> messages (final_state (soliloquy_section (ex_ui False [])
        (ex_env (ApiText [0x20, 0x78, 0x0A]) Succeeds) (press Start ex_state))) \<noteq>
       messages (press Start ex_state) @ [(''assistant'', [0x20, 0x78, 0x0A])]"
proof -
  let ?ev = "ex_env (ApiText [0x20, 0x78, 0x0A]) Succeeds"
  let ?u = "ex_ui False []"
  let ?st = "press Start ex_state"
  have h1: "monologue_running ?st" by (simp add: buttons_def)
  have h2: "\<not> mirror_mode ?u" by (simp add: ex_ui_def)
  have h3: "service ?ev (build_request (opts ?u) soliloquy_prompt) = ApiText [0x20, 0x78, 0x0A]"
    by (simp add: ex_env_def)
  have s: "str_strip [0x20, 0x78, 0x0A] = [0x78]" by (simp add: strip_defs)
  have ask: "ask_gemini (opts ?u) (service ?ev) soliloquy_prompt = Inr [0x78]"
    by (simp add: ask_gemini_ex s)
  have m: "messages (final_state (soliloquy_section ?u ?ev ?st)) =
             messages ?st @ [(''assistant'', [0x78])]"
    using soliloquy_section_messages [OF h1 ask] h2 by simp
  from h1 h2 h3 m show ?thesis by simp
qed

section \<open>The soliloquy's buttons\<close>

lemma press_keeps:
  "messages (press b st) = messages st \<and> logger (press b st) = logger st
   \<and> the_speaker (press b st) = the_speaker st \<and> playbacks (press b st) = playbacks st"
  by (cases b) (simp_all add: buttons_def)

lemma presses_snoc: "presses (bs @ [b]) st = press b (presses bs st)"
  by (simp add: presses_def)

lemma presses_keeps:
  "messages (presses bs st) = messages st \<and> logger (presses bs st) = logger st"
  by (induction bs rule: rev_induct) (simp_all add: presses_snoc press_keeps, simp add: presses_def)

text \<open>
  Claim C8.  \<open>monologue_running\<close> is false in the initial state (Idle); after "start" it is
  true (SoliloquyActive) and after "stop" it is false, from any state; "start" twice is
  the same as "start" once; and so after every sequence of presses the state is the one
  of the last press.  Pressing the buttons changes neither the history nor the log.
\<close>

theorem soliloquy_state_machine:
  "\<not> monologue_running (initial_state init prior)
   \<and> monologue_running (press Start st)
   \<and> \<not> monologue_running (press Stop st)
   \<and> press Start (press Start st) = press Start st
   \<and> presses [] st = st
   \<and> monologue_running (presses (bs @ [Start]) st)
   \<and> \<not> monologue_running (presses (bs @ [Stop]) st)
   \<and> presses (bs @ [Start, Start]) st = presses (bs @ [Start]) st
   \<and> messages (presses bs st) = messages st
   \<and> logger (presses bs st) = logger st"
proof -
  have "presses (bs @ [Start, Start]) st = press Start (press Start (presses bs st))"
    by (simp add: presses_def)
  then have "presses (bs @ [Start, Start]) st = presses (bs @ [Start]) st"
    by (simp add: presses_snoc buttons_def)
  then show ?thesis
    by (simp add: presses_snoc presses_keeps buttons_def initial_state_def) (simp add: presses_def)
qed

section \<open>The speaker\<close>

text \<open>
  Claim C9.  \<open>speak\<close> returns without a playback and without raising when \<open>ok\<close> is false or
  the stripped text is empty; a speaker whose engine failed to initialise has \<open>ok\<close> false;
  \<open>speak\<close> never changes the speaker, so this stays so.  A playback is scheduled only when
  \<open>ok\<close> is true and the stripped text is not empty, and then it is (if the thread starts).
\<close>

theorem speak_noop:
  "(\<not> ok (the_speaker st) \<or> str_strip text = [] \<longrightarrow> speak can_start text st = Returns st)
   \<and> (init \<noteq> EngineReady \<longrightarrow>
        \<not> ok (the_speaker (initial_state init prior))
        \<and> speak can_start text (initial_state init prior) = Returns (initial_state init prior))
   \<and> (playbacks (final_state (speak can_start text st)) \<noteq> playbacks st \<longrightarrow>
        ok (the_speaker st) \<and> str_strip text \<noteq> [])
   \<and> (ok (the_speaker st) \<and> str_strip text \<noteq> [] \<and> can_start \<longrightarrow>
        speak can_start text st = Returns (st\<lparr>playbacks := playbacks st @ [text]\<rparr>))
   \<and> the_speaker (final_state (speak can_start text st)) = the_speaker st"
proof -
  have "init \<noteq> EngineReady \<Longrightarrow> \<not> ok (the_speaker (initial_state init prior))"
    by (cases init) (simp_all add: initial_state_def)
  then show ?thesis by (auto simp: speak_def)
qed

text \<open>
  An engine that failed to initialise; a working engine with a blank text; a working engine
  with the text "calm".
\<close>

theorem speak_noop_witness:
  "\<not> ok (the_speaker (initial_state InitRaises []))
   \<and> speak True ex_calm (initial_state InitRaises []) = Returns (initial_state InitRaises [])
   \<and> ok (the_speaker ex_state) \<and> str_strip [0x20, 0x0A] = []
   \<and> speak True [0x20, 0x0A] ex_state = Returns ex_state
   \<and> str_strip ex_calm \<noteq> []
   \<and> speak True ex_calm ex_state = Returns (ex_state\<lparr>playbacks := playbacks ex_state @ [ex_calm]\<rparr>)
   \<and> playbacks (final_state (speak True ex_calm ex_state)) \<noteq> playbacks ex_state"
proof -
  have a: "InitRaises \<noteq> EngineReady" by simp
  have b: "str_strip [0x20, 0x0A] = []" by (simp add: strip_defs)
  have c: "ok (the_speaker ex_state)" by (simp add: scenario_defs)
  have d: "str_strip ex_calm \<noteq> []" by (simp add: strip_ex_calm) (simp add: ex_calm_def)
  have e: "playbacks ex_state = []" by (simp add: scenario_defs)
  from speak_noop [of "initial_state InitRaises []" ex_calm True InitRaises "[]"] a
  have 1: "\<not> ok (the_speaker (initial_state InitRaises []))
           \<and> speak True ex_calm (initial_state InitRaises []) = Returns (initial_state InitRaises [])"
    by blast
  from speak_noop [of ex_state "[0x20, 0x0A]" True] b
  have 2: "speak True [0x20, 0x0A] ex_state = Returns ex_state" by blast
  from speak_noop [of ex_state ex_calm True] c d
  have 3: "speak True ex_calm ex_state = Returns (ex_state\<lparr>playbacks := playbacks ex_state @ [ex_calm]\<rparr>)"
    by blast
  then have 4: "playbacks (final_state (speak True ex_calm ex_state)) \<noteq> playbacks ex_state"
    by (simp add: e)
  from 1 2 3 4 b c d show ?thesis by blast
qed

section \<open>A failed generation call\<close>

text \<open>
  Claim C10.  When the generation call raises \<open>ApiError\<close>, in the user's section or in the
  soliloquy, the section ends with that exception and the state is the one before: no
  message has been added and the log is untouched.
\<close>

theorem api_error_leaves_state:
  "(user_input u \<noteq> [] \<and> ask_gemini (opts u) (service ev) (user_input u) = Inl ApiError
       \<longrightarrow> user_section u ev st = Raises ApiError st)
   \<and> (monologue_running st \<and> ask_gemini (opts u) (service ev) soliloquy_prompt = Inl ApiError
       \<longrightarrow> soliloquy_section u ev st = Raises ApiError st)"
  by (simp add: user_section_def soliloquy_section_def)

text \<open>The service fails in both sections.\<close>

theorem api_error_leaves_state_witness:
  "user_input (ex_ui True ex_user_text) \<noteq> []
   \<and> ask_gemini (opts (ex_ui True ex_user_text)) (service (ex_env ApiFailure Succeeds))
        (user_input (ex_ui True ex_user_text)) = Inl ApiError
   \<and> user_section (ex_ui True ex_user_text) (ex_env ApiFailure Succeeds) ex_state =
       Raises ApiError ex_state
   \<and> monologue_running (press Start ex_state)
   \<and> ask_gemini (opts (ex_ui True ex_user_text)) (service (ex_env ApiFailure Succeeds))
        soliloquy_prompt = Inl ApiError
   \<and> soliloquy_section (ex_ui True ex_user_text) (ex_env ApiFailure Succeeds)
        (press Start ex_state) = Raises ApiError (press Start ex_state)"
proof -
  let ?u = "ex_ui True ex_user_text"
  let ?ev = "ex_env ApiFailure Succeeds"
  have h1: "user_input ?u \<noteq> []" by (simp add: ex_ui_def ex_user_text_def)
  have h2: "ask_gemini (opts ?u) (service ?ev) prompt = Inl ApiError" for prompt
    by (simp add: ask_gemini_def ex_env_def)
  have h3: "monologue_running (press Start ex_state)" by (simp add: buttons_def)
  from api_error_leaves_state [of ?u ?ev ex_state] h1 h2
  have 1: "user_section ?u ?ev ex_state = Raises ApiError ex_state" by blast
  from api_error_leaves_state [of ?u ?ev "press Start ex_state"] h2 h3
  have 2: "soliloquy_section ?u ?ev (press Start ex_state) = Raises ApiError (press Start ex_state)"
    by blast
  from 1 2 h1 h2 h3 show ?thesis by blast
qed

text \<open>
  In a whole run of the script the speaker is built and the buttons are read first, so a
  click is kept; the history and the log are still those before the run when the user's
  generation call raises.
\<close>

lemma script_run_api_error:
  assumes "user_input u \<noteq> []"
    and "ask_gemini (opts u) (service ev1) (user_input u) = Inl ApiError"
  shows "script_run init start_clicked stop_clicked u ev1 ev2 st =
           Raises ApiError
             (buttons start_clicked stop_clicked (st\<lparr>the_speaker := Speaker_init init\<rparr>))
         \<and> messages (buttons start_clicked stop_clicked (st\<lparr>the_speaker := Speaker_init init\<rparr>)) =
             messages st
         \<and> logger (buttons start_clicked stop_clicked (st\<lparr>the_speaker := Speaker_init init\<rparr>)) =
             logger st"
  using assms by (simp add: script_run_def user_section_def buttons_def Let_def)

end
